theory Spec2Isabelle
  imports Main "HOL-Library.Product_Lexorder"
begin

section \<open>Data model (models.py)\<close>

text \<open>
  A \<open>datetime\<close> value as Python's \<open>datetime\<close> holds it: seven integer fields,
  compared lexicographically from the year down to the microsecond.
\<close>

record datetime =
  dt_year :: int
  dt_month :: int
  dt_day :: int
  dt_hour :: int
  dt_minute :: int
  dt_second :: int
  dt_microsecond :: int

text \<open>Rows of the five tables. Integer columns are Python's unbounded integers.\<close>

record student =
  st_id :: int
  st_name :: string
  current_balance :: int
  credits_received_total :: int
  monthly_sent_this_month :: int
  last_credit_reset :: "datetime option"

record recognition =
  r_id :: int
  r_sender_id :: int
  r_receiver_id :: int
  r_credits :: int
  r_message :: "string option"
  r_created_at :: datetime

record endorsement =
  e_id :: int
  e_recognition_id :: int
  e_endorser_id :: int
  e_created_at :: datetime

record redemption =
  rd_id :: int
  rd_student_id :: int
  rd_credits_redeemed :: int
  rd_voucher_value_inr :: int
  rd_created_at :: datetime

record monthly_reset_log =
  l_id :: int
  l_student_id :: int
  l_month :: int
  l_year :: int
  l_carried_forward :: int
  l_created_at :: datetime

text \<open>
  The store behind \<open>db.session\<close>: one list of rows per table, in insertion order.
\<close>

record db =
  students :: "student list"
  recognitions :: "recognition list"
  endorsements :: "endorsement list"
  redemptions :: "redemption list"
  monthly_reset_logs :: "monthly_reset_log list"

text \<open>
  Every \<open>raise ValueError(...)\<close> of services.py, one constructor per message
  template, carrying the values the message interpolates.
\<close>

datatype error =
    StudentNotFound int
  | SelfTransfer
  | InsufficientBalance int int
  | MonthlyLimitExceeded int int
  | RecognitionNotFound int
  | EndorserNotFound int
  | DuplicateEndorsement
  | InvalidAmount
  | InsufficientCredits int int

section \<open>Store primitives\<close>

text \<open>
  An integer primary key left unset on insert is assigned by the store: one more than
  the largest key in the table, and 1 in an empty table.
\<close>

definition next_id :: "int list \<Rightarrow> int" where
  "next_id ids = (case ids of [] \<Rightarrow> 1 | i # rest \<Rightarrow> fold max rest i + 1)"

text \<open>\<open>Student.query.get(i)\<close> and \<open>Recognition.query.get(i)\<close>: the row with that key, or None.\<close>

definition student_query_get :: "db \<Rightarrow> int \<Rightarrow> student option" where
  "student_query_get d i = find (\<lambda>s. st_id s = i) (students d)"

definition recognition_query_get :: "db \<Rightarrow> int \<Rightarrow> recognition option" where
  "recognition_query_get d i = find (\<lambda>r. r_id r = i) (recognitions d)"

text \<open>
  Committing a modified \<open>Student\<close> object writes its attributes to the row
  with the object's key (\<open>UPDATE students SET ... WHERE id = ?\<close>).
\<close>

definition save_student :: "student \<Rightarrow> db \<Rightarrow> db" where
  "save_student s d =
     d\<lparr>students := map (\<lambda>row. if st_id row = st_id s then s else row) (students d)\<rparr>"

section \<open>services.py\<close>

subsection \<open>create_recognition\<close>

definition create_recognition ::
  "datetime \<Rightarrow> int \<Rightarrow> int \<Rightarrow> int \<Rightarrow> string option \<Rightarrow> db \<Rightarrow> (error + recognition) \<times> db" where
  "create_recognition now sender_id receiver_id credits message d =
     (case student_query_get d sender_id of
        None \<Rightarrow> (Inl (StudentNotFound sender_id), d)
      | Some sender \<Rightarrow>
     (case student_query_get d receiver_id of
        None \<Rightarrow> (Inl (StudentNotFound receiver_id), d)
      | Some receiver \<Rightarrow>
          if sender_id = receiver_id then (Inl SelfTransfer, d)
          else if credits > current_balance sender
            then (Inl (InsufficientBalance (current_balance sender) credits), d)
          else if monthly_sent_this_month sender + credits > 100
            then (Inl (MonthlyLimitExceeded (monthly_sent_this_month sender) credits), d)
          else
            let sender' = sender
                  \<lparr>current_balance := current_balance sender - credits,
                   monthly_sent_this_month := monthly_sent_this_month sender + credits\<rparr>;
                receiver' = receiver
                  \<lparr>current_balance := current_balance receiver + credits,
                   credits_received_total := credits_received_total receiver + credits\<rparr>;
                recognition =
                  \<lparr>r_id = next_id (map r_id (recognitions d)),
                   r_sender_id = sender_id,
                   r_receiver_id = receiver_id,
                   r_credits = credits,
                   r_message = message,
                   r_created_at = now\<rparr>;
                d' = save_student receiver' (save_student sender' d)
            in (Inr recognition, d'\<lparr>recognitions := recognitions d' @ [recognition]\<rparr>)))"

subsection \<open>endorse\<close>

definition endorse ::
  "datetime \<Rightarrow> int \<Rightarrow> int \<Rightarrow> db \<Rightarrow> (error + endorsement) \<times> db" where
  "endorse now recognition_id endorser_id d =
     (case recognition_query_get d recognition_id of
        None \<Rightarrow> (Inl (RecognitionNotFound recognition_id), d)
      | Some recognition \<Rightarrow>
     (case student_query_get d endorser_id of
        None \<Rightarrow> (Inl (EndorserNotFound endorser_id), d)
      | Some endorser \<Rightarrow>
     (case find (\<lambda>e. e_recognition_id e = recognition_id \<and> e_endorser_id e = endorser_id)
                (endorsements d) of
        Some existing_endorsement \<Rightarrow> (Inl DuplicateEndorsement, d)
      | None \<Rightarrow>
          let endorsement =
                \<lparr>e_id = next_id (map e_id (endorsements d)),
                 e_recognition_id = recognition_id,
                 e_endorser_id = endorser_id,
                 e_created_at = now\<rparr>
          in (Inr endorsement, d\<lparr>endorsements := endorsements d @ [endorsement]\<rparr>))))"

subsection \<open>redeem\<close>

definition redeem ::
  "datetime \<Rightarrow> int \<Rightarrow> int \<Rightarrow> db \<Rightarrow> (error + redemption) \<times> db" where
  "redeem now student_id credits_to_redeem d =
     (case student_query_get d student_id of
        None \<Rightarrow> (Inl (StudentNotFound student_id), d)
      | Some student \<Rightarrow>
          if credits_to_redeem \<le> 0 then (Inl InvalidAmount, d)
          else if current_balance student < credits_to_redeem
            then (Inl (InsufficientCredits (current_balance student) credits_to_redeem), d)
          else
            let voucher_value_inr = credits_to_redeem * 5;
                student' = student
                  \<lparr>current_balance := current_balance student - credits_to_redeem\<rparr>;
                redemption =
                  \<lparr>rd_id = next_id (map rd_id (redemptions d)),
                   rd_student_id = student_id,
                   rd_credits_redeemed = credits_to_redeem,
                   rd_voucher_value_inr = voucher_value_inr,
                   rd_created_at = now\<rparr>;
                d' = save_student student' d
            in (Inr redemption, d'\<lparr>redemptions := redemptions d' @ [redemption]\<rparr>))"

subsection \<open>leaderboard\<close>

text \<open>One dict of the returned list.\<close>

record leaderboard_row =
  lb_student_id :: int
  lb_name :: string
  lb_credits_received_total :: int
  lb_recognition_count :: nat
  lb_endorsement_count :: nat

text \<open>
  The query joins every student to the recognitions they received and those to their
  endorsements (outer joins), groups by student, and counts the distinct recognition
  keys and the distinct endorsement keys of each group. \<open>students.id\<close> is the
  primary key, so each student row is a group of its own.
\<close>

definition recognition_count :: "db \<Rightarrow> student \<Rightarrow> nat" where
  "recognition_count d s =
     length (remdups (map r_id (filter (\<lambda>r. r_receiver_id r = st_id s) (recognitions d))))"

definition endorsement_count :: "db \<Rightarrow> student \<Rightarrow> nat" where
  "endorsement_count d s =
     length (remdups (map e_id
       (filter (\<lambda>e. e_recognition_id e \<in>
                     set (map r_id (filter (\<lambda>r. r_receiver_id r = st_id s) (recognitions d))))
               (endorsements d))))"

text \<open>
  \<open>ORDER BY credits_received_total DESC, id ASC\<close>: ascending in the pair
  (negated total, id), ordered lexicographically.
\<close>

definition order_key :: "student \<Rightarrow> int \<times> int" where
  "order_key s = (- credits_received_total s, st_id s)"

text \<open>\<open>LIMIT n\<close>; the SQLite store of config.py reads a negative limit as no limit.\<close>

definition apply_limit :: "int \<Rightarrow> 'a list \<Rightarrow> 'a list" where
  "apply_limit limit xs = (if limit < 0 then xs else take (nat limit) xs)"

definition leaderboard :: "int \<Rightarrow> db \<Rightarrow> leaderboard_row list" where
  "leaderboard limit d =
     map (\<lambda>s. \<lparr>lb_student_id = st_id s,
               lb_name = st_name s,
               lb_credits_received_total = credits_received_total s,
               lb_recognition_count = recognition_count d s,
               lb_endorsement_count = endorsement_count d s\<rparr>)
         (apply_limit limit (sort_key order_key (students d)))"

subsection \<open>ensure_monthly_reset\<close>

text \<open>\<open>dt.replace(day=1, hour=0, minute=0, second=0, microsecond=0)\<close>\<close>

definition month_start :: "datetime \<Rightarrow> datetime" where
  "month_start dt =
     dt\<lparr>dt_day := 1, dt_hour := 0, dt_minute := 0, dt_second := 0, dt_microsecond := 0\<rparr>"

text \<open>\<open>a < b\<close> on datetimes.\<close>

definition datetime_less :: "datetime \<Rightarrow> datetime \<Rightarrow> bool" where
  "datetime_less a b \<longleftrightarrow>
     (dt_year a, dt_month a, dt_day a, dt_hour a, dt_minute a, dt_second a, dt_microsecond a)
   < (dt_year b, dt_month b, dt_day b, dt_hour b, dt_minute b, dt_second b, dt_microsecond b)"

text \<open>The local variable \<open>needs_reset\<close> (lines 221 to 230).\<close>

definition needs_reset :: "datetime \<Rightarrow> student \<Rightarrow> bool" where
  "needs_reset now student =
     (let current_month = month_start now
      in case last_credit_reset student of
           None \<Rightarrow> True
         | Some last_reset \<Rightarrow> datetime_less (month_start last_reset) current_month)"

text \<open>
  The function mutates the \<open>student\<close> object it is given and commits; the model
  returns the flag, the object after the call, and the store after the call.
\<close>

definition ensure_monthly_reset :: "datetime \<Rightarrow> student \<Rightarrow> db \<Rightarrow> bool \<times> student \<times> db" where
  "ensure_monthly_reset now student d =
     (if \<not> needs_reset now student then (False, student, d)
      else
        let carry_forward = min 50 (current_balance student);
            student' = student
              \<lparr>current_balance := 100 + carry_forward,
               monthly_sent_this_month := 0,
               last_credit_reset := Some now\<rparr>;
            reset_log =
              \<lparr>l_id = next_id (map l_id (monthly_reset_logs d)),
               l_student_id = st_id student,
               l_month = dt_month now,
               l_year = dt_year now,
               l_carried_forward = carry_forward,
               l_created_at = now\<rparr>;
            d' = save_student student' d
        in (True, student', d'\<lparr>monthly_reset_logs := monthly_reset_logs d' @ [reset_log]\<rparr>))"

subsection \<open>run_monthly_reset_for_all_students\<close>

text \<open>
  \<open>db.session.commit()\<close> raises when the store refuses the transaction; nothing in
  services.py catches it. \<open>StoreFailure\<close> is that exception.
\<close>

datatype store_error = StoreFailure

text \<open>
  The loop over \<open>Student.query.all()\<close>. \<open>clock k\<close> is what \<open>datetime.utcnow()\<close>
  returns in the call for the \<open>k\<close>-th student visited; \<open>fails i\<close> says that the
  commit of the reset of student \<open>i\<close> raises. A reset that is not needed commits
  nothing and so cannot fail. When a commit raises, the exception leaves the loop: the
  store keeps what the earlier iterations committed, and the transaction that failed is
  not written.
\<close>

fun reset_loop ::
  "(int \<Rightarrow> bool) \<Rightarrow> (nat \<Rightarrow> datetime) \<Rightarrow> nat \<Rightarrow> student list \<Rightarrow> nat \<Rightarrow> db
     \<Rightarrow> (store_error + nat) \<times> db" where
  "reset_loop fails clock k [] reset_count d = (Inr reset_count, d)"
| "reset_loop fails clock k (student # rest) reset_count d =
     (case ensure_monthly_reset (clock k) student d of
        (performed, student', d') \<Rightarrow>
          if performed \<and> fails (st_id student) then (Inl StoreFailure, d)
          else reset_loop fails clock (Suc k) rest
                 (if performed then reset_count + 1 else reset_count) d')"

definition run_monthly_reset_for_all_students ::
  "(int \<Rightarrow> bool) \<Rightarrow> (nat \<Rightarrow> datetime) \<Rightarrow> db \<Rightarrow> (store_error + nat) \<times> db" where
  "run_monthly_reset_for_all_students fails clock d =
     reset_loop fails clock 0 (students d) 0 d"

section \<open>app.py: the boundary check of the recognition endpoint\<close>

text \<open>
  \<open>create_recognition_endpoint\<close> for a request whose JSON body has the three required
  fields and an integer \<open>credits\<close> (so that \<open>int(data["credits"])\<close> is that integer):
  the status code with either the reason of the 400 response or the created record.
\<close>

datatype bad_request = CreditsNotPositive | ServiceError error

definition create_recognition_endpoint ::
  "datetime \<Rightarrow> int \<Rightarrow> int \<Rightarrow> int \<Rightarrow> string option \<Rightarrow> db
     \<Rightarrow> (nat \<times> (bad_request + recognition)) \<times> db" where
  "create_recognition_endpoint now sender_id receiver_id credits message d =
     (if credits \<le> 0 then ((400, Inl CreditsNotPositive), d)
      else case create_recognition now sender_id receiver_id credits message d of
             (Inl e, d') \<Rightarrow> ((400, Inl (ServiceError e)), d')
           | (Inr recognition, d') \<Rightarrow> ((201, Inr recognition), d'))"

section \<open>Sequences of operations\<close>

text \<open>
  One call of an operation of the ledger, with its arguments. A per-student reset is
  addressed by the student's key: it runs on the store's row with that key.
\<close>

datatype operation =
    CreateRecognition datetime int int int "string option"
  | Endorse datetime int int
  | Redeem datetime int int
  | EnsureMonthlyReset datetime int
  | RunMonthlyReset "int \<Rightarrow> bool" "nat \<Rightarrow> datetime"

fun run_operation :: "operation \<Rightarrow> db \<Rightarrow> db" where
  "run_operation (CreateRecognition now sender_id receiver_id credits message) d =
     snd (create_recognition now sender_id receiver_id credits message d)"
| "run_operation (Endorse now recognition_id endorser_id) d =
     snd (endorse now recognition_id endorser_id d)"
| "run_operation (Redeem now student_id credits_to_redeem) d =
     snd (redeem now student_id credits_to_redeem d)"
| "run_operation (EnsureMonthlyReset now student_id) d =
     (case student_query_get d student_id of
        None \<Rightarrow> d
      | Some student \<Rightarrow> snd (snd (ensure_monthly_reset now student d)))"
| "run_operation (RunMonthlyReset fails clock) d =
     snd (run_monthly_reset_for_all_students fails clock d)"

text \<open>The credit amount an operation is given, where it takes one, is positive.\<close>

fun credit_amount_positive :: "operation \<Rightarrow> bool" where
  "credit_amount_positive (CreateRecognition now sender_id receiver_id credits message) =
     (0 < credits)"
| "credit_amount_positive (Redeem now student_id credits_to_redeem) = (0 < credits_to_redeem)"
| "credit_amount_positive _ = True"

section \<open>Predicates on the store\<close>

definition balances_nonneg :: "db \<Rightarrow> bool" where
  "balances_nonneg d = list_all (\<lambda>s. 0 \<le> current_balance s) (students d)"

text \<open>Primary key of \<open>students\<close>: no two rows share an id.\<close>

definition student_ids_distinct :: "db \<Rightarrow> bool" where
  "student_ids_distinct d = distinct (map st_id (students d))"

text \<open>No two endorsements share their (recognition, endorser) pair.\<close>

definition endorsement_pairs_unique :: "db \<Rightarrow> bool" where
  "endorsement_pairs_unique d =
     distinct (map (\<lambda>e. (e_recognition_id e, e_endorser_id e)) (endorsements d))"

text \<open>Two instants of the same calendar month.\<close>

definition same_month :: "datetime \<Rightarrow> datetime \<Rightarrow> bool" where
  "same_month a b \<longleftrightarrow> dt_year a = dt_year b \<and> dt_month a = dt_month b"

text \<open>Some endorsement of \<open>recognition_id\<close> by \<open>endorser_id\<close> is in the store.\<close>

definition endorsed_by :: "db \<Rightarrow> int \<Rightarrow> int \<Rightarrow> bool" where
  "endorsed_by d recognition_id endorser_id \<longleftrightarrow>
     (\<exists>e \<in> set (endorsements d).
        e_recognition_id e = recognition_id \<and> e_endorser_id e = endorser_id)"

text \<open>
  What a leaderboard entry says about a student, in the words of the specification: the
  stored total, the number of distinct recognitions the student received, and the number
  of distinct endorsements on any of those recognitions.
\<close>

definition entry_of :: "db \<Rightarrow> student \<Rightarrow> leaderboard_row \<Rightarrow> bool" where
  "entry_of d s row \<longleftrightarrow>
     lb_student_id row = st_id s
   \<and> lb_name row = st_name s
   \<and> lb_credits_received_total row = credits_received_total s
   \<and> lb_recognition_count row
       = card {r_id r |r. r \<in> set (recognitions d) \<and> r_receiver_id r = st_id s}
   \<and> lb_endorsement_count row
       = card {e_id e |e. e \<in> set (endorsements d)
                \<and> (\<exists>r \<in> set (recognitions d).
                      r_receiver_id r = st_id s \<and> e_recognition_id e = r_id r)}"

text \<open>
  Entry \<open>a\<close> ranks before entry \<open>b\<close>: a larger received total, or the same total and a
  smaller student id.
\<close>

definition ranks_before :: "leaderboard_row \<Rightarrow> leaderboard_row \<Rightarrow> bool" where
  "ranks_before a b \<longleftrightarrow>
     lb_credits_received_total a > lb_credits_received_total b
   \<or> (lb_credits_received_total a = lb_credits_received_total b
       \<and> lb_student_id a < lb_student_id b)"

section \<open>Small stores for concrete runs\<close>

text \<open>
  \<open>new_student\<close> is a row as the student endpoint inserts it, with the column
  defaults of models.py.
\<close>

definition at_time :: "int \<Rightarrow> int \<Rightarrow> int \<Rightarrow> datetime" where
  "at_time y m dd =
     \<lparr>dt_year = y, dt_month = m, dt_day = dd, dt_hour = 9, dt_minute = 30, dt_second = 0,
      dt_microsecond = 0\<rparr>"

definition new_student :: "int \<Rightarrow> string \<Rightarrow> student" where
  "new_student i n =
     \<lparr>st_id = i, st_name = n, current_balance = 100, credits_received_total = 0,
      monthly_sent_this_month = 0, last_credit_reset = None\<rparr>"

definition two_students :: db where
  "two_students =
     \<lparr>students = [new_student 1 ''A'', new_student 2 ''B''], recognitions = [],
      endorsements = [], redemptions = [], monthly_reset_logs = []\<rparr>"

definition busy_students :: db where
  "busy_students =
     \<lparr>students =
        [(new_student 1 ''A'')\<lparr>current_balance := 150, monthly_sent_this_month := 60\<rparr>,
         new_student 2 ''B''],
      recognitions = [], endorsements = [], redemptions = [], monthly_reset_logs = []\<rparr>"

text \<open>The store after student 1 has sent 30 credits to student 2.\<close>

definition thanked :: db where
  "thanked =
     snd (create_recognition (at_time 2024 1 15) 1 2 30 (Some ''thanks'') two_students)"

text \<open>A student with a given balance and last reset, and a store holding only students.\<close>

definition student_with :: "int \<Rightarrow> int \<Rightarrow> datetime option \<Rightarrow> student" where
  "student_with i b last_reset =
     (new_student i ''S'')\<lparr>current_balance := b, last_credit_reset := last_reset\<rparr>"

definition store_of :: "student list \<Rightarrow> db" where
  "store_of ss =
     \<lparr>students = ss, recognitions = [], endorsements = [], redemptions = [],
      monthly_reset_logs = []\<rparr>"

text \<open>
  Two students with the same received total of 50, the first with two endorsements on
  the recognition they received, the second with none.
\<close>

definition tied_students :: db where
  "tied_students =
     \<lparr>students =
        [(new_student 1 ''A'')\<lparr>credits_received_total := 50\<rparr>,
         (new_student 2 ''B'')\<lparr>credits_received_total := 50\<rparr>,
         new_student 3 ''C''],
      recognitions =
        [\<lparr>r_id = 1, r_sender_id = 3, r_receiver_id = 1, r_credits = 50, r_message = None,
          r_created_at = at_time 2024 1 15\<rparr>,
         \<lparr>r_id = 2, r_sender_id = 3, r_receiver_id = 2, r_credits = 50, r_message = None,
          r_created_at = at_time 2024 1 15\<rparr>],
      endorsements =
        [\<lparr>e_id = 1, e_recognition_id = 1, e_endorser_id = 2, e_created_at = at_time 2024 1 16\<rparr>,
         \<lparr>e_id = 2, e_recognition_id = 1, e_endorser_id = 3, e_created_at = at_time 2024 1 16\<rparr>],
      redemptions = [], monthly_reset_logs = []\<rparr>"

text \<open>
  Commit outcomes and clocks for concrete batch runs: no commit raises; the commit of the
  reset of student \<open>j\<close> raises; every reading of the clock returns the same instant.
\<close>

definition no_commit_fails :: "int \<Rightarrow> bool" where
  "no_commit_fails i = False"

definition commit_fails_for :: "int \<Rightarrow> int \<Rightarrow> bool" where
  "commit_fails_for j i \<longleftrightarrow> i = j"

definition always_at :: "datetime \<Rightarrow> nat \<Rightarrow> datetime" where
  "always_at t k = t"

definition three_students :: db where
  "three_students = store_of [new_student 1 ''A'', new_student 2 ''B'', new_student 3 ''C'']"

section \<open>Lookups and writes\<close>

lemmas example_defs = two_students_def busy_students_def new_student_def at_time_def
  student_query_get_def

lemma find_id_Some: "find (\<lambda>s. st_id s = i) xs = Some s \<Longrightarrow> st_id s = i \<and> s \<in> set xs"
  by (induction xs) (auto split: if_splits)

lemma student_query_get_id: "student_query_get d i = Some s \<Longrightarrow> st_id s = i"
  by (auto simp: student_query_get_def dest: find_id_Some)

lemma student_query_get_mem: "student_query_get d i = Some s \<Longrightarrow> s \<in> set (students d)"
  by (auto simp: student_query_get_def dest: find_id_Some)

lemma find_after_save:
  "find (\<lambda>s. st_id s = i) (map (\<lambda>row. if st_id row = st_id s' then s' else row) xs) =
     (case find (\<lambda>s. st_id s = i) xs of
        None \<Rightarrow> None
      | Some r \<Rightarrow> Some (if i = st_id s' then s' else r))"
  by (induction xs) auto

lemma get_after_save:
  "student_query_get (save_student s' d) i =
     (case student_query_get d i of
        None \<Rightarrow> None
      | Some r \<Rightarrow> Some (if i = st_id s' then s' else r))"
  by (simp add: student_query_get_def save_student_def find_after_save)

lemma save_student_other_tables [simp]:
  "recognitions (save_student s d) = recognitions d"
  "endorsements (save_student s d) = endorsements d"
  "redemptions (save_student s d) = redemptions d"
  "monthly_reset_logs (save_student s d) = monthly_reset_logs d"
  by (simp_all add: save_student_def)

lemma student_query_get_other_tables [simp]:
  "student_query_get (d\<lparr>recognitions := rs\<rparr>) i = student_query_get d i"
  "student_query_get (d\<lparr>endorsements := es\<rparr>) i = student_query_get d i"
  "student_query_get (d\<lparr>redemptions := ds\<rparr>) i = student_query_get d i"
  "student_query_get (d\<lparr>monthly_reset_logs := ls\<rparr>) i = student_query_get d i"
  by (simp_all add: student_query_get_def)

section \<open>create_recognition: a successful transfer\<close>

text \<open>
  Claim C1. When the sender and the receiver exist and differ, \<open>credits\<close> is at most the
  sender's balance and the sender's monthly total plus \<open>credits\<close> is at most 100, the
  call succeeds: it returns the new Recognition with the given fields, appends exactly
  that record to the recognitions, lowers the sender's balance and raises the sender's
  monthly total by \<open>credits\<close>, raises the receiver's balance and received total by
  \<open>credits\<close>, and leaves the sum of the two balances as it was.
\<close>

theorem create_recognition_success:
  assumes "student_query_get d sender_id = Some sender"
    and "student_query_get d receiver_id = Some receiver"
    and "sender_id \<noteq> receiver_id"
    and "credits \<le> current_balance sender"
    and "monthly_sent_this_month sender + credits \<le> 100"
  shows "\<exists>recognition d'.
      create_recognition now sender_id receiver_id credits message d = (Inr recognition, d')
    \<and> recognition = \<lparr>r_id = next_id (map r_id (recognitions d)), r_sender_id = sender_id,
         r_receiver_id = receiver_id, r_credits = credits, r_message = message,
         r_created_at = now\<rparr>
    \<and> recognitions d' = recognitions d @ [recognition]
    \<and> student_query_get d' sender_id =
        Some (sender\<lparr>current_balance := current_balance sender - credits,
                     monthly_sent_this_month := monthly_sent_this_month sender + credits\<rparr>)
    \<and> student_query_get d' receiver_id =
        Some (receiver\<lparr>current_balance := current_balance receiver + credits,
                       credits_received_total := credits_received_total receiver + credits\<rparr>)
    \<and> (\<exists>sender' receiver'.
          student_query_get d' sender_id = Some sender'
        \<and> student_query_get d' receiver_id = Some receiver'
        \<and> current_balance sender' + current_balance receiver'
            = current_balance sender + current_balance receiver)"
proof -
  have ids: "st_id sender = sender_id" "st_id receiver = receiver_id"
    using assms(1,2) by (auto dest: student_query_get_id)
  show ?thesis
    using assms ids
    by (simp add: create_recognition_def Let_def get_after_save)
qed

theorem create_recognition_success_witness:
  "student_query_get two_students 1 = Some (new_student 1 ''A'')
 \<and> student_query_get two_students 2 = Some (new_student 2 ''B'')
 \<and> (1::int) \<noteq> 2
 \<and> 30 \<le> current_balance (new_student 1 ''A'')
 \<and> monthly_sent_this_month (new_student 1 ''A'') + 30 \<le> 100
 \<and> (\<exists>recognition.
      fst (create_recognition (at_time 2024 1 15) 1 2 30 (Some ''thanks'') two_students)
        = Inr recognition
    \<and> r_credits recognition = 30
    \<and> recognitions
         (snd (create_recognition (at_time 2024 1 15) 1 2 30 (Some ''thanks'') two_students))
        = [recognition])
 \<and> map current_balance (students
      (snd (create_recognition (at_time 2024 1 15) 1 2 30 (Some ''thanks'') two_students)))
      = [70, 130]
 \<and> map monthly_sent_this_month (students
      (snd (create_recognition (at_time 2024 1 15) 1 2 30 (Some ''thanks'') two_students)))
      = [30, 0]
 \<and> map credits_received_total (students
      (snd (create_recognition (at_time 2024 1 15) 1 2 30 (Some ''thanks'') two_students)))
      = [0, 30]"
proof -
  have h1: "student_query_get two_students 1 = Some (new_student 1 ''A'')"
    and h2: "student_query_get two_students 2 = Some (new_student 2 ''B'')"
    and h3: "(1::int) \<noteq> 2"
    and h4: "30 \<le> current_balance (new_student 1 ''A'')"
    and h5: "monthly_sent_this_month (new_student 1 ''A'') + 30 \<le> 100"
    by (simp_all add: example_defs)
  show ?thesis
    using create_recognition_success
      [OF h1 h2 h3 h4 h5, of "at_time 2024 1 15" "Some ''thanks''"]
    by (simp add: create_recognition_def Let_def example_defs save_student_def next_id_def)
qed

section \<open>create_recognition: the order of the checks\<close>



section \<open>endorse\<close>


lemma endorse_students [simp]: "students (snd (endorse now rid eid d)) = students d"
  by (simp add: endorse_def Let_def split: option.splits)

lemma endorse_pairs_unique:
  "endorsement_pairs_unique d \<Longrightarrow> endorsement_pairs_unique (snd (endorse now rid eid d))"
  by (auto simp: endorse_def Let_def endorsement_pairs_unique_def find_None_iff
      split: option.splits)

lemma create_recognition_endorsements [simp]:
  "endorsements (snd (create_recognition now a b c m d)) = endorsements d"
  by (simp add: create_recognition_def Let_def split: option.splits)

lemma redeem_endorsements [simp]:
  "endorsements (snd (redeem now a c d)) = endorsements d"
  by (simp add: redeem_def Let_def split: option.splits)

lemma ensure_monthly_reset_endorsements [simp]:
  "endorsements (snd (snd (ensure_monthly_reset now s d))) = endorsements d"
  by (simp add: ensure_monthly_reset_def Let_def)

lemma reset_loop_endorsements [simp]:
  "endorsements (snd (reset_loop fails clock k ss n d)) = endorsements d"
proof (induction ss arbitrary: k n d)
  case Nil
  show ?case by simp
next
  case (Cons s ss)
  obtain p s' d' where e: "ensure_monthly_reset (clock k) s d = (p, s', d')"
    by (cases "ensure_monthly_reset (clock k) s d") auto
  have "endorsements d' = endorsements d"
    using ensure_monthly_reset_endorsements [of "clock k" s d] e by simp
  with Cons e show ?case by simp
qed

lemma run_operation_pairs_unique:
  "endorsement_pairs_unique d \<Longrightarrow> endorsement_pairs_unique (run_operation op d)"
proof (cases op)
  case (Endorse now rid eid)
  assume "endorsement_pairs_unique d"
  with Endorse show ?thesis by (simp add: endorse_pairs_unique)
qed (auto simp: endorsement_pairs_unique_def run_monthly_reset_for_all_students_def
      split: option.splits)

lemma fold_run_operation_pairs_unique:
  "endorsement_pairs_unique d \<Longrightarrow> endorsement_pairs_unique (fold run_operation ops d)"
  by (induction ops arbitrary: d) (auto simp: run_operation_pairs_unique)


lemma find_endorsement_None:
  "find (\<lambda>e. e_recognition_id e = rid \<and> e_endorser_id e = eid) (endorsements d) = None
     \<longleftrightarrow> \<not> endorsed_by d rid eid"
  by (auto simp: find_None_iff endorsed_by_def)

lemma endorse_existing:
  assumes "recognition_query_get d rid = Some recognition"
    and "student_query_get d eid = Some endorser"
  shows "endorse now rid eid d =
     (if endorsed_by d rid eid then (Inl DuplicateEndorsement, d)
      else (Inr \<lparr>e_id = next_id (map e_id (endorsements d)), e_recognition_id = rid,
                 e_endorser_id = eid, e_created_at = now\<rparr>,
            d\<lparr>endorsements := endorsements d @
               [\<lparr>e_id = next_id (map e_id (endorsements d)), e_recognition_id = rid,
                 e_endorser_id = eid, e_created_at = now\<rparr>]\<rparr>))"
proof (cases "find (\<lambda>e. e_recognition_id e = rid \<and> e_endorser_id e = eid) (endorsements d)")
  case None
  then have "\<not> endorsed_by d rid eid" by (simp add: find_endorsement_None)
  with None assms show ?thesis by (simp add: endorse_def Let_def)
next
  case (Some e)
  then have "endorsed_by d rid eid" using find_endorsement_None [of rid eid d] by simp
  with Some assms show ?thesis by (simp add: endorse_def)
qed

lemma endorsed_by_append:
  "endorsed_by (d\<lparr>endorsements := endorsements d @ [e]\<rparr>) rid eid
     \<longleftrightarrow> endorsed_by d rid eid \<or> (e_recognition_id e = rid \<and> e_endorser_id e = eid)"
  by (auto simp: endorsed_by_def)

lemma recognition_query_get_endorsements_update [simp]:
  "recognition_query_get (d\<lparr>endorsements := es\<rparr>) i = recognition_query_get d i"
  by (simp add: recognition_query_get_def)

text \<open>
  Claim C3. A missing recognition, then a missing endorser, raise their own not-found
  reasons first. For an existing recognition and an existing endorser, the call raises
  DuplicateEndorsement exactly when the store already holds an endorsement of that
  recognition by that endorser, and leaves the store as it was; otherwise it appends
  exactly one endorsement for the pair and returns it. After that, the same endorser is
  refused on the same recognition and another existing endorser who has not endorsed it
  is accepted. No call changes a student row, and no sequence of operations ever leads
  from a store with at most one endorsement per (recognition, endorser) pair to one
  with two.
\<close>

theorem endorse_spec:
  "(recognition_query_get d recognition_id = None \<longrightarrow>
      endorse now recognition_id endorser_id d = (Inl (RecognitionNotFound recognition_id), d))
 \<and> (\<forall>recognition. recognition_query_get d recognition_id = Some recognition \<longrightarrow>
      (student_query_get d endorser_id = None \<longrightarrow>
         endorse now recognition_id endorser_id d = (Inl (EndorserNotFound endorser_id), d))
    \<and> (\<forall>endorser. student_query_get d endorser_id = Some endorser \<longrightarrow>
         (fst (endorse now recognition_id endorser_id d) = Inl DuplicateEndorsement
            \<longleftrightarrow> endorsed_by d recognition_id endorser_id)
       \<and> (endorsed_by d recognition_id endorser_id \<longrightarrow>
            endorse now recognition_id endorser_id d = (Inl DuplicateEndorsement, d))
       \<and> (\<not> endorsed_by d recognition_id endorser_id \<longrightarrow>
            (\<exists>endorsement d'.
               endorse now recognition_id endorser_id d = (Inr endorsement, d')
             \<and> endorsement = \<lparr>e_id = next_id (map e_id (endorsements d)),
                  e_recognition_id = recognition_id, e_endorser_id = endorser_id,
                  e_created_at = now\<rparr>
             \<and> endorsements d' = endorsements d @ [endorsement]
             \<and> endorse later recognition_id endorser_id d' = (Inl DuplicateEndorsement, d')
             \<and> (\<forall>other endorser2. other \<noteq> endorser_id
                    \<and> student_query_get d other = Some endorser2
                    \<and> \<not> endorsed_by d recognition_id other \<longrightarrow>
                  (\<exists>endorsement2. fst (endorse later recognition_id other d')
                     = Inr endorsement2))))))
 \<and> students (snd (endorse now recognition_id endorser_id d)) = students d
 \<and> (endorsement_pairs_unique d \<longrightarrow>
      endorsement_pairs_unique (snd (endorse now recognition_id endorser_id d))
    \<and> endorsement_pairs_unique (fold run_operation ops d))"
proof -
  have a: "recognition_query_get d recognition_id = None \<longrightarrow>
      endorse now recognition_id endorser_id d = (Inl (RecognitionNotFound recognition_id), d)"
    by (simp add: endorse_def)
  have b: "student_query_get d endorser_id = None \<longrightarrow>
         endorse now recognition_id endorser_id d = (Inl (EndorserNotFound endorser_id), d)"
    if "recognition_query_get d recognition_id = Some recognition" for recognition
    using that by (simp add: endorse_def)
  show ?thesis
    using a b
    by (auto simp: endorse_existing endorsed_by_append endorse_pairs_unique
        fold_run_operation_pairs_unique)
qed

theorem endorse_spec_witness:
  "endorse (at_time 2024 1 16) 9 1 thanked = (Inl (RecognitionNotFound 9), thanked)
 \<and> endorse (at_time 2024 1 16) 1 9 thanked = (Inl (EndorserNotFound 9), thanked)
 \<and> \<not> endorsed_by thanked 1 1
 \<and> (\<exists>endorsement.
      fst (endorse (at_time 2024 1 16) 1 1 thanked) = Inr endorsement
    \<and> endorsements (snd (endorse (at_time 2024 1 16) 1 1 thanked)) = [endorsement])
 \<and> fst (endorse (at_time 2024 1 17) 1 1 (snd (endorse (at_time 2024 1 16) 1 1 thanked)))
      = Inl DuplicateEndorsement
 \<and> (\<exists>endorsement2.
      fst (endorse (at_time 2024 1 17) 1 2 (snd (endorse (at_time 2024 1 16) 1 1 thanked)))
        = Inr endorsement2)
 \<and> endorsement_pairs_unique thanked
 \<and> endorsement_pairs_unique
      (fold run_operation
         [Endorse (at_time 2024 1 16) 1 1, Endorse (at_time 2024 1 17) 1 1,
          Endorse (at_time 2024 1 17) 1 2] thanked)"
  using endorse_spec [where d = thanked and recognition_id = 9 and endorser_id = 1
      and now = "at_time 2024 1 16"]
    endorse_spec [where d = thanked and recognition_id = 1 and endorser_id = 9
      and now = "at_time 2024 1 16"]
    endorse_spec [where d = thanked and recognition_id = 1 and endorser_id = 1
      and now = "at_time 2024 1 16" and later = "at_time 2024 1 17"
      and ops = "[Endorse (at_time 2024 1 16) 1 1, Endorse (at_time 2024 1 17) 1 1,
          Endorse (at_time 2024 1 17) 1 2]"]
  by (simp add: thanked_def create_recognition_def endorse_def Let_def example_defs
      save_student_def next_id_def recognition_query_get_def endorsed_by_def
      endorsement_pairs_unique_def)

section \<open>redeem\<close>

text \<open>
  Claim C4. For an existing student and \<open>0 < credits_to_redeem \<le> current_balance\<close>,
  redeem lowers the balance by exactly that amount, appends a Redemption whose voucher
  value is five times the amount, returns it, and leaves the received total and the
  monthly total alone; a balance of 100 and an amount of 10 give a voucher of 50 and a
  balance of 90. The failures are, in this order, a missing student, a non-positive
  amount, an amount above the balance; each leaves the store as it was.
\<close>

theorem redeem_spec:
  "(student_query_get d student_id = None \<longrightarrow>
      redeem now student_id credits_to_redeem d = (Inl (StudentNotFound student_id), d))
 \<and> (\<forall>student. student_query_get d student_id = Some student \<longrightarrow>
      (credits_to_redeem \<le> 0 \<longrightarrow>
         redeem now student_id credits_to_redeem d = (Inl InvalidAmount, d))
    \<and> (0 < credits_to_redeem \<and> current_balance student < credits_to_redeem \<longrightarrow>
         redeem now student_id credits_to_redeem d
           = (Inl (InsufficientCredits (current_balance student) credits_to_redeem), d))
    \<and> (0 < credits_to_redeem \<and> credits_to_redeem \<le> current_balance student \<longrightarrow>
         (\<exists>redemption d'.
            redeem now student_id credits_to_redeem d = (Inr redemption, d')
          \<and> redemption = \<lparr>rd_id = next_id (map rd_id (redemptions d)),
               rd_student_id = student_id, rd_credits_redeemed = credits_to_redeem,
               rd_voucher_value_inr = credits_to_redeem * 5, rd_created_at = now\<rparr>
          \<and> redemptions d' = redemptions d @ [redemption]
          \<and> student_query_get d' student_id =
              Some (student\<lparr>current_balance := current_balance student - credits_to_redeem\<rparr>)
          \<and> (\<forall>student'. student_query_get d' student_id = Some student' \<longrightarrow>
                current_balance student' = current_balance student - credits_to_redeem
              \<and> credits_received_total student' = credits_received_total student
              \<and> monthly_sent_this_month student' = monthly_sent_this_month student
              \<and> (current_balance student = 100 \<and> credits_to_redeem = 10 \<longrightarrow>
                   rd_voucher_value_inr redemption = 50 \<and> current_balance student' = 90)))))"
proof -
  have "st_id student = student_id" if "student_query_get d student_id = Some student" for student
    using that by (rule student_query_get_id)
  then show ?thesis
    by (auto simp: redeem_def Let_def get_after_save)
qed

theorem redeem_spec_witness:
  "redeem (at_time 2024 1 15) 3 10 two_students = (Inl (StudentNotFound 3), two_students)
 \<and> redeem (at_time 2024 1 15) 1 0 two_students = (Inl InvalidAmount, two_students)
 \<and> redeem (at_time 2024 1 15) 1 101 two_students
      = (Inl (InsufficientCredits 100 101), two_students)
 \<and> (\<exists>redemption.
      fst (redeem (at_time 2024 1 15) 1 10 two_students) = Inr redemption
    \<and> rd_voucher_value_inr redemption = 50)
 \<and> map current_balance (students (snd (redeem (at_time 2024 1 15) 1 10 two_students)))
      = [90, 100]"
  using redeem_spec [of two_students 3 "at_time 2024 1 15" 10]
    redeem_spec [of two_students 1 "at_time 2024 1 15" 0]
    redeem_spec [of two_students 1 "at_time 2024 1 15" 101]
    redeem_spec [of two_students 1 "at_time 2024 1 15" 10]
  by (simp add: redeem_def Let_def example_defs save_student_def next_id_def)

section \<open>create_recognition does not check the sign of credits\<close>

text \<open>
  Claim C10. create_recognition has no check that \<open>credits\<close> is positive, and never
  raises InvalidAmount. With distinct existing sender and receiver, a negative
  \<open>credits\<close> that is at most the sender's balance and keeps the monthly total within 100
  goes through: the call succeeds, the sender's balance rises and monthly total falls,
  the receiver's balance and received total fall. Only the endpoint of app.py refuses
  such a request, with status 400, before the call.
\<close>

theorem create_recognition_negative_credits:
  assumes "student_query_get d sender_id = Some sender"
    and "student_query_get d receiver_id = Some receiver"
    and "sender_id \<noteq> receiver_id"
    and "credits < 0"
    and "credits \<le> current_balance sender"
    and "monthly_sent_this_month sender + credits \<le> 100"
  shows "(\<exists>recognition d' sender' receiver'.
      create_recognition now sender_id receiver_id credits message d = (Inr recognition, d')
    \<and> r_credits recognition = credits
    \<and> student_query_get d' sender_id = Some sender'
    \<and> student_query_get d' receiver_id = Some receiver'
    \<and> current_balance sender' > current_balance sender
    \<and> monthly_sent_this_month sender' < monthly_sent_this_month sender
    \<and> current_balance receiver' < current_balance receiver
    \<and> credits_received_total receiver' < credits_received_total receiver)
  \<and> create_recognition_endpoint now sender_id receiver_id credits message d
      = ((400, Inl CreditsNotPositive), d)
  \<and> (\<forall>now0 sender_id0 receiver_id0 credits0 message0 d0.
       fst (create_recognition now0 sender_id0 receiver_id0 credits0 message0 d0)
         \<noteq> Inl InvalidAmount)"
proof -
  have ids: "st_id sender = sender_id" "st_id receiver = receiver_id"
    using assms(1,2) by (auto dest: student_query_get_id)
  have never: "fst (create_recognition now0 sender_id0 receiver_id0 credits0 message0 d0)
         \<noteq> Inl InvalidAmount" for now0 sender_id0 receiver_id0 credits0 message0 d0
    by (simp add: create_recognition_def Let_def split: option.splits)
  show ?thesis
    using assms ids never
    by (simp add: create_recognition_def create_recognition_endpoint_def Let_def get_after_save)
qed

theorem create_recognition_negative_credits_witness:
  "student_query_get two_students 1 = Some (new_student 1 ''A'')
 \<and> student_query_get two_students 2 = Some (new_student 2 ''B'')
 \<and> (1::int) \<noteq> 2
 \<and> (- 5 :: int) < 0
 \<and> - 5 \<le> current_balance (new_student 1 ''A'')
 \<and> monthly_sent_this_month (new_student 1 ''A'') + (- 5) \<le> 100
 \<and> (\<exists>recognition.
      fst (create_recognition (at_time 2024 1 15) 1 2 (- 5) None two_students) = Inr recognition
    \<and> r_credits recognition = - 5)
 \<and> map current_balance (students
      (snd (create_recognition (at_time 2024 1 15) 1 2 (- 5) None two_students))) = [105, 95]
 \<and> map monthly_sent_this_month (students
      (snd (create_recognition (at_time 2024 1 15) 1 2 (- 5) None two_students))) = [- 5, 0]
 \<and> map credits_received_total (students
      (snd (create_recognition (at_time 2024 1 15) 1 2 (- 5) None two_students))) = [0, - 5]
 \<and> create_recognition_endpoint (at_time 2024 1 15) 1 2 (- 5) None two_students
      = ((400, Inl CreditsNotPositive), two_students)"
proof -
  have h1: "student_query_get two_students 1 = Some (new_student 1 ''A'')"
    and h2: "student_query_get two_students 2 = Some (new_student 2 ''B'')"
    and h3: "(1::int) \<noteq> 2"
    and h4: "(- 5 :: int) < 0"
    and h5: "- 5 \<le> current_balance (new_student 1 ''A'')"
    and h6: "monthly_sent_this_month (new_student 1 ''A'') + (- 5) \<le> 100"
    by (simp_all add: example_defs)
  show ?thesis
    using create_recognition_negative_credits
      [OF h1 h2 h3 h4 h5 h6, of "at_time 2024 1 15" None]
    by (simp add: create_recognition_def create_recognition_endpoint_def Let_def example_defs
        save_student_def next_id_def)
qed

section \<open>ensure_monthly_reset\<close>

lemma needs_reset_iff:
  "needs_reset now student \<longleftrightarrow>
     (case last_credit_reset student of
        None \<Rightarrow> True
      | Some last_reset \<Rightarrow>
          dt_year last_reset < dt_year now
        \<or> (dt_year last_reset = dt_year now \<and> dt_month last_reset < dt_month now))"
  by (auto simp: needs_reset_def month_start_def datetime_less_def Let_def split: option.splits)

lemma needs_reset_same_month:
  "same_month a b \<Longrightarrow> needs_reset a student = needs_reset b student"
  by (simp add: needs_reset_iff same_month_def split: option.splits)

lemma ensure_monthly_reset_needed:
  "needs_reset now student \<Longrightarrow>
   ensure_monthly_reset now student d =
     (True,
      student\<lparr>current_balance := 100 + min 50 (current_balance student),
              monthly_sent_this_month := 0, last_credit_reset := Some now\<rparr>,
      (save_student
         (student\<lparr>current_balance := 100 + min 50 (current_balance student),
                  monthly_sent_this_month := 0, last_credit_reset := Some now\<rparr>) d)
       \<lparr>monthly_reset_logs := monthly_reset_logs d @
          [\<lparr>l_id = next_id (map l_id (monthly_reset_logs d)), l_student_id = st_id student,
            l_month = dt_month now, l_year = dt_year now,
            l_carried_forward = min 50 (current_balance student), l_created_at = now\<rparr>]\<rparr>)"
  by (simp add: ensure_monthly_reset_def Let_def)

lemma ensure_monthly_reset_not_needed:
  "\<not> needs_reset now student \<Longrightarrow> ensure_monthly_reset now student d = (False, student, d)"
  by (simp add: ensure_monthly_reset_def)

text \<open>
  Claim C5. A reset is needed exactly when \<open>last_credit_reset\<close> is unset or its
  (year, month) is strictly before the (year, month) of now; no other field of either
  instant matters. When needed, the call returns True, sets the balance to
  \<open>100 + min 50 balance\<close>, the monthly total to 0 and the last reset to now, writes the
  row, and appends one MonthlyResetLog with now's month and year and the amount carried
  forward; a balance of 30 becomes 130 and a balance of 80 becomes 150. When not needed
  it returns False and changes nothing.
\<close>

theorem ensure_monthly_reset_spec:
  "(needs_reset now student \<longleftrightarrow>
      last_credit_reset student = None
    \<or> (\<exists>last_reset. last_credit_reset student = Some last_reset
          \<and> (dt_year last_reset < dt_year now
              \<or> (dt_year last_reset = dt_year now \<and> dt_month last_reset < dt_month now))))
 \<and> (needs_reset now student \<longrightarrow>
      (\<exists>student' d'.
         ensure_monthly_reset now student d = (True, student', d')
       \<and> student' = student
            \<lparr>current_balance := 100 + min 50 (current_balance student),
             monthly_sent_this_month := 0, last_credit_reset := Some now\<rparr>
       \<and> monthly_reset_logs d' = monthly_reset_logs d @
            [\<lparr>l_id = next_id (map l_id (monthly_reset_logs d)), l_student_id = st_id student,
              l_month = dt_month now, l_year = dt_year now,
              l_carried_forward = min 50 (current_balance student), l_created_at = now\<rparr>]
       \<and> (student_query_get d (st_id student) = Some student \<longrightarrow>
            student_query_get d' (st_id student) = Some student')
       \<and> (current_balance student = 30 \<longrightarrow> current_balance student' = 130)
       \<and> (current_balance student = 80 \<longrightarrow> current_balance student' = 150)))
 \<and> (\<not> needs_reset now student \<longrightarrow>
      ensure_monthly_reset now student d = (False, student, d))"
  by (auto simp: ensure_monthly_reset_needed ensure_monthly_reset_not_needed get_after_save
      needs_reset_iff split: option.splits)

theorem ensure_monthly_reset_spec_witness:
  "needs_reset (at_time 2024 2 1) (student_with 1 30 (Some (at_time 2024 1 31)))
 \<and> needs_reset (at_time 2024 1 1) (student_with 1 30 (Some (at_time 2023 12 31)))
 \<and> needs_reset (at_time 2024 2 1) (student_with 1 30 None)
 \<and> \<not> needs_reset (at_time 2024 1 31) (student_with 1 30 (Some (at_time 2024 1 2)))
 \<and> fst (ensure_monthly_reset (at_time 2024 2 1) (student_with 1 30 (Some (at_time 2024 1 31)))
      (store_of [student_with 1 30 (Some (at_time 2024 1 31))]))
 \<and> map current_balance (students (snd (snd
      (ensure_monthly_reset (at_time 2024 2 1) (student_with 1 30 (Some (at_time 2024 1 31)))
         (store_of [student_with 1 30 (Some (at_time 2024 1 31))]))))) = [130]
 \<and> map l_carried_forward (monthly_reset_logs (snd (snd
      (ensure_monthly_reset (at_time 2024 2 1) (student_with 1 30 (Some (at_time 2024 1 31)))
         (store_of [student_with 1 30 (Some (at_time 2024 1 31))]))))) = [30]
 \<and> map current_balance (students (snd (snd
      (ensure_monthly_reset (at_time 2024 2 1) (student_with 1 80 None)
         (store_of [student_with 1 80 None]))))) = [150]
 \<and> ensure_monthly_reset (at_time 2024 1 31) (student_with 1 30 (Some (at_time 2024 1 2)))
      (store_of [student_with 1 30 (Some (at_time 2024 1 2))])
    = (False, student_with 1 30 (Some (at_time 2024 1 2)),
       store_of [student_with 1 30 (Some (at_time 2024 1 2))])"
  using ensure_monthly_reset_spec [where now = "at_time 2024 2 1"
      and student = "student_with 1 30 (Some (at_time 2024 1 31))"
      and d = "store_of [student_with 1 30 (Some (at_time 2024 1 31))]"]
    ensure_monthly_reset_spec [where now = "at_time 2024 1 1"
      and student = "student_with 1 30 (Some (at_time 2023 12 31))"]
    ensure_monthly_reset_spec [where now = "at_time 2024 2 1"
      and student = "student_with 1 80 None" and d = "store_of [student_with 1 80 None]"]
    ensure_monthly_reset_spec [where now = "at_time 2024 1 31"
      and student = "student_with 1 30 (Some (at_time 2024 1 2))"
      and d = "store_of [student_with 1 30 (Some (at_time 2024 1 2))]"]
  by (simp add: ensure_monthly_reset_def needs_reset_def month_start_def datetime_less_def
      Let_def student_with_def store_of_def new_student_def at_time_def save_student_def
      next_id_def)

text \<open>
  Claim C6. After any call of ensure_monthly_reset for a student, a further call for the
  same student at any instant of the same calendar month returns False, leaves every
  field of the student and the whole store as they were, and so appends no
  MonthlyResetLog. The student object after the first call is the store's row.
\<close>

theorem ensure_monthly_reset_idempotent:
  assumes "ensure_monthly_reset now1 student d = (performed, student1, d1)"
    and "same_month now1 now2"
  shows "ensure_monthly_reset now2 student1 d1 = (False, student1, d1)
    \<and> (student_query_get d (st_id student) = Some student \<longrightarrow>
         student_query_get d1 (st_id student) = Some student1)"
proof (cases "needs_reset now1 student")
  case True
  from assms(1) have s1: "student1 = student
      \<lparr>current_balance := 100 + min 50 (current_balance student),
       monthly_sent_this_month := 0, last_credit_reset := Some now1\<rparr>"
    and d1: "d1 = (save_student student1 d)
       \<lparr>monthly_reset_logs := monthly_reset_logs d @
          [\<lparr>l_id = next_id (map l_id (monthly_reset_logs d)), l_student_id = st_id student,
            l_month = dt_month now1, l_year = dt_year now1,
            l_carried_forward = min 50 (current_balance student), l_created_at = now1\<rparr>]\<rparr>"
    by (auto simp: ensure_monthly_reset_needed [OF True])
  have "\<not> needs_reset now2 student1"
    using assms(2) by (simp add: s1 needs_reset_iff same_month_def)
  then have "ensure_monthly_reset now2 student1 d1 = (False, student1, d1)"
    by (rule ensure_monthly_reset_not_needed)
  moreover have "student_query_get d (st_id student) = Some student \<longrightarrow>
         student_query_get d1 (st_id student) = Some student1"
    by (simp add: d1 get_after_save s1)
  ultimately show ?thesis by simp
next
  case False
  with assms(1) have eq: "student1 = student" "d1 = d"
    by (simp_all add: ensure_monthly_reset_not_needed)
  have "\<not> needs_reset now2 student"
    using False needs_reset_same_month [OF assms(2)] by simp
  then show ?thesis
    by (simp add: eq ensure_monthly_reset_not_needed)
qed

theorem ensure_monthly_reset_idempotent_witness:
  "same_month (at_time 2024 2 1) (at_time 2024 2 28)
 \<and> fst (ensure_monthly_reset (at_time 2024 2 1) (student_with 1 80 (Some (at_time 2024 1 31)))
      (store_of [student_with 1 80 (Some (at_time 2024 1 31)), new_student 2 ''B'']))
 \<and> ensure_monthly_reset (at_time 2024 2 28)
      (fst (snd (ensure_monthly_reset (at_time 2024 2 1)
         (student_with 1 80 (Some (at_time 2024 1 31)))
         (store_of [student_with 1 80 (Some (at_time 2024 1 31)), new_student 2 ''B'']))))
      (snd (snd (ensure_monthly_reset (at_time 2024 2 1)
         (student_with 1 80 (Some (at_time 2024 1 31)))
         (store_of [student_with 1 80 (Some (at_time 2024 1 31)), new_student 2 ''B'']))))
    = (False,
       fst (snd (ensure_monthly_reset (at_time 2024 2 1)
         (student_with 1 80 (Some (at_time 2024 1 31)))
         (store_of [student_with 1 80 (Some (at_time 2024 1 31)), new_student 2 ''B'']))),
       snd (snd (ensure_monthly_reset (at_time 2024 2 1)
         (student_with 1 80 (Some (at_time 2024 1 31)))
         (store_of [student_with 1 80 (Some (at_time 2024 1 31)), new_student 2 ''B'']))))"
proof -
  let ?s = "student_with 1 80 (Some (at_time 2024 1 31))"
  let ?d = "store_of [?s, new_student 2 ''B'']"
  let ?r = "ensure_monthly_reset (at_time 2024 2 1) ?s ?d"
  have h1: "?r = (fst ?r, fst (snd ?r), snd (snd ?r))" by simp
  have h2: "same_month (at_time 2024 2 1) (at_time 2024 2 28)"
    by (simp add: same_month_def at_time_def)
  have p: "fst ?r"
    by (simp add: ensure_monthly_reset_def needs_reset_def month_start_def datetime_less_def
      Let_def student_with_def store_of_def new_student_def at_time_def)
  show ?thesis
    using ensure_monthly_reset_idempotent [OF h1 h2] h2 p by simp
qed

section \<open>run_monthly_reset_for_all_students\<close>

lemma ensure_monthly_reset_student_indep:
  "fst (snd (ensure_monthly_reset now s d)) = fst (snd (ensure_monthly_reset now s d0))"
  by (simp add: ensure_monthly_reset_def Let_def)

lemma ensure_monthly_reset_student_id [simp]:
  "st_id (fst (snd (ensure_monthly_reset now s d))) = st_id s"
  by (simp add: ensure_monthly_reset_def Let_def)

lemma ensure_monthly_reset_performed [simp]:
  "fst (ensure_monthly_reset now s d) = needs_reset now s"
  by (simp add: ensure_monthly_reset_def Let_def)

lemma replace_row_distinct:
  assumes "distinct (map st_id (done @ s # rest))" and "st_id s' = st_id s"
  shows "map (\<lambda>row. if st_id row = st_id s then s' else row) (done @ s # rest)
           = done @ s' # rest"
proof -
  have other: "st_id x \<noteq> st_id s" if "x \<in> set done \<or> x \<in> set rest" for x
    using assms(1) that by (auto simp: image_iff)
  have "map (\<lambda>row. if st_id row = st_id s then s' else row) done = done"
    by (rule map_idI) (simp add: other)
  moreover have "map (\<lambda>row. if st_id row = st_id s then s' else row) rest = rest"
    by (rule map_idI) (simp add: other)
  ultimately show ?thesis by simp
qed

lemma ensure_monthly_reset_students:
  assumes "students d = done @ s # rest" and "distinct (map st_id (done @ s # rest))"
  shows "students (snd (snd (ensure_monthly_reset now s d)))
           = done @ fst (snd (ensure_monthly_reset now s d)) # rest"
proof (cases "needs_reset now s")
  case True
  then show ?thesis
    using replace_row_distinct [OF assms(2), of
        "s\<lparr>current_balance := 100 + min 50 (current_balance s),
           monthly_sent_this_month := 0, last_credit_reset := Some now\<rparr>"] assms(1)
    by (simp add: ensure_monthly_reset_needed save_student_def)
next
  case False
  then show ?thesis using assms(1) by (simp add: ensure_monthly_reset_not_needed)
qed

lemma reset_loop_Cons_ok:
  "\<not> (needs_reset (clock k) s \<and> fails (st_id s)) \<Longrightarrow>
   reset_loop fails clock k (s # rest) n d =
     reset_loop fails clock (Suc k) rest (if needs_reset (clock k) s then n + 1 else n)
       (snd (snd (ensure_monthly_reset (clock k) s d)))"
  by (cases "ensure_monthly_reset (clock k) s d")
     (use ensure_monthly_reset_performed [of "clock k" s d] in auto)

lemma reset_loop_Cons_fail:
  "needs_reset (clock k) s \<and> fails (st_id s) \<Longrightarrow>
   reset_loop fails clock k (s # rest) n d = (Inl StoreFailure, d)"
  by (cases "ensure_monthly_reset (clock k) s d")
     (use ensure_monthly_reset_performed [of "clock k" s d] in auto)

lemma reset_loop_result:
  assumes "students d = done @ ss @ tail" and "distinct (map st_id (done @ ss @ tail))"
    and "\<forall>(j, x) \<in> set (enumerate k ss). \<not> (needs_reset (clock j) x \<and> fails (st_id x))"
  shows "fst (reset_loop fails clock k ss n d)
           = Inr (n + length (filter (\<lambda>(j, x). needs_reset (clock j) x) (enumerate k ss)))
       \<and> students (snd (reset_loop fails clock k ss n d))
           = done @ map (\<lambda>(j, x). fst (snd (ensure_monthly_reset (clock j) x d0)))
                      (enumerate k ss) @ tail
       \<and> length (monthly_reset_logs (snd (reset_loop fails clock k ss n d)))
           = length (monthly_reset_logs d)
             + length (filter (\<lambda>(j, x). needs_reset (clock j) x) (enumerate k ss))"
  using assms
proof (induction ss arbitrary: k n d "done")
  case Nil
  then show ?case by simp
next
  case (Cons s rest)
  let ?r = "ensure_monthly_reset (clock k) s d"
  let ?s' = "fst (snd ?r)"
  let ?d' = "snd (snd ?r)"
  have ok: "\<not> (needs_reset (clock k) s \<and> fails (st_id s))"
    using Cons.prems(3) by simp
  have "students d = done @ s # (rest @ tail)"
    and "distinct (map st_id (done @ s # (rest @ tail)))"
    using Cons.prems(1,2) by simp_all
  then have "students ?d' = done @ ?s' # (rest @ tail)"
    by (rule ensure_monthly_reset_students)
  then have st: "students ?d' = (done @ [?s']) @ rest @ tail"
    by simp
  have di: "distinct (map st_id ((done @ [?s']) @ rest @ tail))"
    using Cons.prems(2) by simp
  have nf: "\<forall>(j, x) \<in> set (enumerate (Suc k) rest).
      \<not> (needs_reset (clock j) x \<and> fails (st_id x))"
    using Cons.prems(3) by simp
  note IH = Cons.IH [OF st di nf, of "if needs_reset (clock k) s then n + 1 else n"]
  have logs: "length (monthly_reset_logs ?d')
      = length (monthly_reset_logs d) + (if needs_reset (clock k) s then 1 else 0)"
    by (simp add: ensure_monthly_reset_def Let_def)
  show ?case
    using IH logs ensure_monthly_reset_student_indep [of "clock k" s d d0]
    by (simp add: reset_loop_Cons_ok [where clock = clock and k = k and fails = fails, OF ok]
        del: reset_loop.simps(2))
qed

lemma reset_loop_append:
  "reset_loop fails clock k (xs @ ys) n d =
     (case reset_loop fails clock k xs n d of
        (Inl e, d') \<Rightarrow> (Inl e, d')
      | (Inr n', d') \<Rightarrow> reset_loop fails clock (k + length xs) ys n' d')"
proof (induction xs arbitrary: k n d)
  case Nil
  show ?case by simp
next
  case (Cons x xs)
  show ?case
  proof (cases "needs_reset (clock k) x \<and> fails (st_id x)")
    case True
    then show ?thesis
      by (simp add: reset_loop_Cons_fail [where clock = clock and k = k and fails = fails, OF True]
          del: reset_loop.simps(2))
  next
    case False
    show ?thesis
      using Cons.IH
      by (simp add: reset_loop_Cons_ok [where clock = clock and k = k and fails = fails, OF False]
          del: reset_loop.simps(2) split: prod.splits sum.splits)
  qed
qed

lemma reset_loop_nothing_needed:
  "\<forall>x \<in> set xs. \<forall>j. \<not> needs_reset (clock j) x \<Longrightarrow>
   reset_loop fails clock k xs n d = (Inr n, d)"
proof (induction xs arbitrary: k)
  case Nil
  show ?case by simp
next
  case (Cons x xs)
  then have "\<not> needs_reset (clock k) x" by simp
  then show ?case
    using Cons by (simp add: ensure_monthly_reset_not_needed)
qed

lemma no_reset_after_reset:
  "same_month now1 now2 \<Longrightarrow>
   \<not> needs_reset now2 (fst (snd (ensure_monthly_reset now1 s d)))"
  using ensure_monthly_reset_performed [of now2 "fst (snd (ensure_monthly_reset now1 s d))"
      "snd (snd (ensure_monthly_reset now1 s d))"]
  by (cases "needs_reset now1 s")
     (auto simp: ensure_monthly_reset_needed ensure_monthly_reset_not_needed needs_reset_iff
        same_month_def split: option.splits)


text \<open>
  Claim C7, as stated, fails when a commit raises: the loop has no handler, so the
  exception ends the batch. In the store of three new students, when the commit of the
  first student's reset raises, the call returns no count and leaves the store as it
  was, although all three students need a reset; a further call in the same calendar
  month then resets three students, not none.
\<close>

theorem run_monthly_reset_failure_counterexample:
  "student_ids_distinct three_students
 \<and> needs_reset (at_time 2024 1 15) (new_student 1 ''A'')
 \<and> needs_reset (at_time 2024 1 15) (new_student 2 ''B'')
 \<and> needs_reset (at_time 2024 1 15) (new_student 3 ''C'')
 \<and> run_monthly_reset_for_all_students (commit_fails_for 1) (always_at (at_time 2024 1 15))
      three_students
    = (Inl StoreFailure, three_students)
 \<and> same_month (at_time 2024 1 15) (at_time 2024 1 20)
 \<and> fst (run_monthly_reset_for_all_students no_commit_fails (always_at (at_time 2024 1 20))
      (snd (run_monthly_reset_for_all_students (commit_fails_for 1)
              (always_at (at_time 2024 1 15)) three_students)))
    = Inr 3"
  by (simp add: run_monthly_reset_for_all_students_def ensure_monthly_reset_def
      needs_reset_def month_start_def datetime_less_def same_month_def Let_def
      three_students_def store_of_def new_student_def at_time_def save_student_def
      next_id_def student_ids_distinct_def commit_fails_for_def no_commit_fails_def
      always_at_def)

text \<open>
  Claim C7, amended. The batch visits the students in order, each per-student reset in
  a transaction of its own. When no commit of a needed reset raises, it visits every
  student: each row ends as its own per-student reset leaves it, one log row is written
  per reset performed, the number returned is the number of students for whom a reset
  was performed, and a further batch at instants of the same calendar month returns 0
  and changes nothing. When the commit of one student's reset raises, the exception
  ends the batch without a count: the resets committed for the students before it are
  kept, and that student and those after it are left as they were.
\<close>

theorem run_monthly_reset_spec:
  assumes "student_ids_distinct d"
  shows
  "((\<forall>(k, s) \<in> set (enumerate 0 (students d)).
        \<not> (needs_reset (clock k) s \<and> fails (st_id s))) \<longrightarrow>
    (\<exists>d'. run_monthly_reset_for_all_students fails clock d
        = (Inr (length (filter (\<lambda>(k, s). needs_reset (clock k) s)
                          (enumerate 0 (students d)))), d')
      \<and> students d' = map (\<lambda>(k, s). fst (snd (ensure_monthly_reset (clock k) s d)))
                          (enumerate 0 (students d))
      \<and> length (monthly_reset_logs d')
          = length (monthly_reset_logs d)
            + length (filter (\<lambda>(k, s). needs_reset (clock k) s) (enumerate 0 (students d)))
      \<and> ((\<forall>j k. same_month (clock j) (later_clock k)) \<longrightarrow>
           run_monthly_reset_for_all_students later_fails later_clock d' = (Inr 0, d'))))
 \<and> (\<forall>pre s post.
       students d = pre @ s # post
     \<and> needs_reset (clock (length pre)) s \<and> fails (st_id s)
     \<and> (\<forall>(k, x) \<in> set (enumerate 0 pre). \<not> (needs_reset (clock k) x \<and> fails (st_id x)))
     \<longrightarrow>
       (\<exists>d'. run_monthly_reset_for_all_students fails clock d = (Inl StoreFailure, d')
          \<and> students d' = map (\<lambda>(k, x). fst (snd (ensure_monthly_reset (clock k) x d)))
                              (enumerate 0 pre) @ s # post
          \<and> length (monthly_reset_logs d')
              = length (monthly_reset_logs d)
                + length (filter (\<lambda>(k, x). needs_reset (clock k) x) (enumerate 0 pre))))"
proof (intro conjI allI impI)
  assume nf: "\<forall>(k, s) \<in> set (enumerate 0 (students d)).
        \<not> (needs_reset (clock k) s \<and> fails (st_id s))"
  let ?ss = "students d"
  let ?run = "reset_loop fails clock 0 ?ss 0 d"
  have st: "students d = [] @ ?ss @ []" by simp
  have di: "distinct (map st_id ([] @ ?ss @ []))"
    using assms by (simp add: student_ids_distinct_def)
  have r: "fst ?run = Inr (0 + length (filter (\<lambda>(k, s). needs_reset (clock k) s)
                          (enumerate 0 ?ss)))
      \<and> students (snd ?run)
          = [] @ map (\<lambda>(k, s). fst (snd (ensure_monthly_reset (clock k) s d)))
                   (enumerate 0 ?ss) @ []
      \<and> length (monthly_reset_logs (snd ?run))
          = length (monthly_reset_logs d)
            + length (filter (\<lambda>(k, s). needs_reset (clock k) s) (enumerate 0 ?ss))"
    by (rule reset_loop_result [OF st di nf])
  have again: "run_monthly_reset_for_all_students later_fails later_clock (snd ?run)
      = (Inr 0, snd ?run)"
    if sm: "\<forall>j k. same_month (clock j) (later_clock k)"
  proof -
    have "\<forall>x \<in> set (students (snd ?run)). \<forall>j. \<not> needs_reset (later_clock j) x"
      using r sm by (auto simp: no_reset_after_reset)
    then show ?thesis
      unfolding run_monthly_reset_for_all_students_def
      by (rule reset_loop_nothing_needed)
  qed
  show "\<exists>d'. run_monthly_reset_for_all_students fails clock d
        = (Inr (length (filter (\<lambda>(k, s). needs_reset (clock k) s)
                          (enumerate 0 (students d)))), d')
      \<and> students d' = map (\<lambda>(k, s). fst (snd (ensure_monthly_reset (clock k) s d)))
                          (enumerate 0 (students d))
      \<and> length (monthly_reset_logs d')
          = length (monthly_reset_logs d)
            + length (filter (\<lambda>(k, s). needs_reset (clock k) s) (enumerate 0 (students d)))
      \<and> ((\<forall>j k. same_month (clock j) (later_clock k)) \<longrightarrow>
           run_monthly_reset_for_all_students later_fails later_clock d' = (Inr 0, d'))"
    using r again
    by (intro exI [of _ "snd ?run"])
       (simp add: run_monthly_reset_for_all_students_def prod_eq_iff)
next
  fix pre s post
  assume h: "students d = pre @ s # post
     \<and> needs_reset (clock (length pre)) s \<and> fails (st_id s)
     \<and> (\<forall>(k, x) \<in> set (enumerate 0 pre). \<not> (needs_reset (clock k) x \<and> fails (st_id x)))"
  have st: "students d = [] @ pre @ (s # post)" using h by simp
  have di: "distinct (map st_id ([] @ pre @ (s # post)))"
    using assms h by (simp add: student_ids_distinct_def)
  have nf: "\<forall>(k, x) \<in> set (enumerate 0 pre). \<not> (needs_reset (clock k) x \<and> fails (st_id x))"
    using h by simp
  let ?p = "reset_loop fails clock 0 pre 0 d"
  have r: "fst ?p = Inr (0 + length (filter (\<lambda>(k, x). needs_reset (clock k) x)
                          (enumerate 0 pre)))
      \<and> students (snd ?p)
          = [] @ map (\<lambda>(k, x). fst (snd (ensure_monthly_reset (clock k) x d)))
                   (enumerate 0 pre) @ (s # post)
      \<and> length (monthly_reset_logs (snd ?p))
          = length (monthly_reset_logs d)
            + length (filter (\<lambda>(k, x). needs_reset (clock k) x) (enumerate 0 pre))"
    by (rule reset_loop_result [OF st di nf])
  obtain n1 d1 where p: "reset_loop fails clock 0 pre 0 d = (Inr n1, d1)"
    using r by (cases "reset_loop fails clock 0 pre 0 d") auto
  have f: "needs_reset (clock (length pre)) s \<and> fails (st_id s)" using h by simp
  have "reset_loop fails clock 0 (pre @ s # post) 0 d = (Inl StoreFailure, d1)"
    by (simp add: reset_loop_append p
        reset_loop_Cons_fail [where clock = clock and fails = fails and k = "length pre", OF f]
        del: reset_loop.simps(2))
  then show "\<exists>d'. run_monthly_reset_for_all_students fails clock d = (Inl StoreFailure, d')
          \<and> students d' = map (\<lambda>(k, x). fst (snd (ensure_monthly_reset (clock k) x d)))
                              (enumerate 0 pre) @ s # post
          \<and> length (monthly_reset_logs d')
              = length (monthly_reset_logs d)
                + length (filter (\<lambda>(k, x). needs_reset (clock k) x) (enumerate 0 pre))"
    using r h p
    by (intro exI [of _ d1]) (simp add: run_monthly_reset_for_all_students_def)
qed

theorem run_monthly_reset_spec_witness:
  "student_ids_distinct three_students
 \<and> fst (run_monthly_reset_for_all_students no_commit_fails (always_at (at_time 2024 1 15))
      three_students)
      = Inr 3
 \<and> map current_balance (students (snd
      (run_monthly_reset_for_all_students no_commit_fails (always_at (at_time 2024 1 15))
         three_students)))
      = [150, 150, 150]
 \<and> map l_student_id (monthly_reset_logs (snd
      (run_monthly_reset_for_all_students no_commit_fails (always_at (at_time 2024 1 15))
         three_students)))
      = [1, 2, 3]
 \<and> same_month (at_time 2024 1 15) (at_time 2024 1 20)
 \<and> run_monthly_reset_for_all_students (commit_fails_for 1) (always_at (at_time 2024 1 20))
      (snd (run_monthly_reset_for_all_students no_commit_fails (always_at (at_time 2024 1 15))
         three_students))
    = (Inr 0,
       snd (run_monthly_reset_for_all_students no_commit_fails (always_at (at_time 2024 1 15))
         three_students))
 \<and> three_students = store_of ([new_student 1 ''A''] @ new_student 2 ''B'' # [new_student 3 ''C''])
 \<and> needs_reset (at_time 2024 1 15) (new_student 2 ''B'')
 \<and> commit_fails_for 2 (st_id (new_student 2 ''B''))
 \<and> \<not> commit_fails_for 2 (st_id (new_student 1 ''A''))
 \<and> fst (run_monthly_reset_for_all_students (commit_fails_for 2)
      (always_at (at_time 2024 1 15)) three_students)
      = Inl StoreFailure
 \<and> map current_balance (students (snd
      (run_monthly_reset_for_all_students (commit_fails_for 2) (always_at (at_time 2024 1 15))
         three_students)))
      = [150, 100, 100]
 \<and> map l_student_id (monthly_reset_logs (snd
      (run_monthly_reset_for_all_students (commit_fails_for 2) (always_at (at_time 2024 1 15))
         three_students)))
      = [1]"
proof -
  have h: "student_ids_distinct three_students"
    by (simp add: student_ids_distinct_def three_students_def store_of_def new_student_def)
  show ?thesis
    using h
      run_monthly_reset_spec [OF h, where clock = "always_at (at_time 2024 1 15)"
        and later_clock = "always_at (at_time 2024 1 20)"
        and later_fails = "commit_fails_for 1" and fails = no_commit_fails]
      run_monthly_reset_spec [OF h, where clock = "always_at (at_time 2024 1 15)"
        and fails = "commit_fails_for 2"]
    by (simp add: run_monthly_reset_for_all_students_def ensure_monthly_reset_def
        needs_reset_def month_start_def datetime_less_def same_month_def Let_def
        three_students_def store_of_def new_student_def at_time_def save_student_def
        next_id_def commit_fails_for_def no_commit_fails_def always_at_def)
qed

section \<open>Balances never go negative\<close>

lemma balances_nonneg_save:
  "balances_nonneg d \<Longrightarrow> 0 \<le> current_balance s \<Longrightarrow> balances_nonneg (save_student s d)"
  by (auto simp: balances_nonneg_def save_student_def list_all_iff)

lemma balances_nonneg_other_tables [simp]:
  "balances_nonneg (d\<lparr>recognitions := rs\<rparr>) = balances_nonneg d"
  "balances_nonneg (d\<lparr>endorsements := es\<rparr>) = balances_nonneg d"
  "balances_nonneg (d\<lparr>redemptions := ds\<rparr>) = balances_nonneg d"
  "balances_nonneg (d\<lparr>monthly_reset_logs := ls\<rparr>) = balances_nonneg d"
  by (simp_all add: balances_nonneg_def)

lemma balances_nonneg_get:
  "balances_nonneg d \<Longrightarrow> student_query_get d i = Some s \<Longrightarrow> 0 \<le> current_balance s"
  by (auto simp: balances_nonneg_def list_all_iff dest: student_query_get_mem)

lemma create_recognition_nonneg:
  assumes "balances_nonneg d" and "0 < credits"
  shows "balances_nonneg (snd (create_recognition now sender_id receiver_id credits message d))"
proof (cases "student_query_get d sender_id")
  case None
  with assms show ?thesis by (simp add: create_recognition_def)
next
  case sender: (Some sender)
  show ?thesis
  proof (cases "student_query_get d receiver_id")
    case None
    with assms sender show ?thesis by (simp add: create_recognition_def)
  next
    case (Some receiver)
    have "0 \<le> current_balance receiver"
      using assms(1) Some by (rule balances_nonneg_get)
    with assms sender Some show ?thesis
      by (simp add: create_recognition_def Let_def balances_nonneg_save)
  qed
qed

lemma redeem_nonneg:
  "balances_nonneg d \<Longrightarrow> balances_nonneg (snd (redeem now student_id credits_to_redeem d))"
  by (simp add: redeem_def Let_def balances_nonneg_save split: option.splits)

lemma endorse_nonneg:
  "balances_nonneg d \<Longrightarrow> balances_nonneg (snd (endorse now recognition_id endorser_id d))"
  by (simp add: balances_nonneg_def endorse_students)

lemma ensure_monthly_reset_nonneg:
  "balances_nonneg d \<Longrightarrow> 0 \<le> current_balance s \<Longrightarrow>
   balances_nonneg (snd (snd (ensure_monthly_reset now s d)))"
  by (simp add: ensure_monthly_reset_def Let_def balances_nonneg_save)

lemma reset_loop_nonneg:
  "balances_nonneg d \<Longrightarrow> list_all (\<lambda>s. 0 \<le> current_balance s) ss \<Longrightarrow>
   balances_nonneg (snd (reset_loop fails clock k ss n d))"
proof (induction ss arbitrary: k n d)
  case Nil
  then show ?case by simp
next
  case (Cons s ss)
  have step: "balances_nonneg (snd (snd (ensure_monthly_reset (clock k) s d)))"
    using Cons.prems by (simp add: ensure_monthly_reset_nonneg)
  show ?case
  proof (cases "needs_reset (clock k) s \<and> fails (st_id s)")
    case True
    then show ?thesis
      using Cons.prems(1)
      by (simp add: reset_loop_Cons_fail [where clock = clock and k = k and fails = fails]
          del: reset_loop.simps(2))
  next
    case False
    then show ?thesis
      using Cons.IH [OF step] Cons.prems(2)
      by (simp add: reset_loop_Cons_ok [where clock = clock and k = k and fails = fails]
          del: reset_loop.simps(2))
  qed
qed

lemma run_operation_nonneg:
  assumes "balances_nonneg d" and "credit_amount_positive op"
  shows "balances_nonneg (run_operation op d)"
proof (cases op)
  case (CreateRecognition now sender_id receiver_id credits message)
  with assms show ?thesis by (simp add: create_recognition_nonneg)
next
  case (Endorse now recognition_id endorser_id)
  with assms show ?thesis by (simp add: endorse_nonneg)
next
  case (Redeem now student_id credits_to_redeem)
  with assms show ?thesis by (simp add: redeem_nonneg)
next
  case (EnsureMonthlyReset now student_id)
  with assms show ?thesis
    by (auto simp: ensure_monthly_reset_nonneg balances_nonneg_get split: option.splits)
next
  case (RunMonthlyReset fails clock)
  with assms show ?thesis
    by (simp add: run_monthly_reset_for_all_students_def reset_loop_nonneg
        balances_nonneg_def [symmetric])
qed

lemma fold_run_operation_nonneg:
  "balances_nonneg d \<Longrightarrow> list_all credit_amount_positive ops \<Longrightarrow>
   balances_nonneg (fold run_operation ops d)"
  by (induction ops arbitrary: d) (simp_all add: run_operation_nonneg)

lemma list_all_take: "list_all P xs \<Longrightarrow> list_all P (take n xs)"
  by (auto simp: list_all_iff dest: in_set_takeD)

text \<open>
  Claim C9. Start from a store in which every balance is non-negative and run any
  sequence of operations (create_recognition, endorse, redeem, a per-student reset, the
  batch reset, with or without a failing commit) whose credit amounts are all positive.
  After every operation of the sequence every student's balance is non-negative, and so
  it is after each per-student commit inside a batch reset started from any of these
  states.
\<close>

theorem balances_stay_nonneg:
  assumes "balances_nonneg d" and "list_all credit_amount_positive ops"
  shows "(\<forall>n. \<forall>s \<in> set (students (fold run_operation (take n ops) d)).
            0 \<le> current_balance s)
       \<and> (\<forall>n fails clock j.
            \<forall>s \<in> set (students (snd (reset_loop fails clock 0
                        (take j (students (fold run_operation (take n ops) d))) 0
                        (fold run_operation (take n ops) d)))).
              0 \<le> current_balance s)"
proof -
  have reach: "balances_nonneg (fold run_operation (take n ops) d)" for n
    using assms(1) list_all_take [OF assms(2)] by (rule fold_run_operation_nonneg)
  have batch: "balances_nonneg (snd (reset_loop fails clock 0
                        (take j (students (fold run_operation (take n ops) d))) 0
                        (fold run_operation (take n ops) d)))" for n fails clock j
    using reach [of n] list_all_take [of "\<lambda>s. 0 \<le> current_balance s"
        "students (fold run_operation (take n ops) d)" j] reach [of n]
    by (intro reset_loop_nonneg) (simp_all add: balances_nonneg_def)
  show ?thesis
    using reach batch by (simp add: balances_nonneg_def list_all_iff)
qed

theorem balances_stay_nonneg_witness:
  "balances_nonneg two_students
 \<and> list_all credit_amount_positive
      [CreateRecognition (at_time 2024 1 15) 1 2 30 (Some ''thanks''),
       Redeem (at_time 2024 1 16) 2 50,
       Endorse (at_time 2024 1 16) 1 1,
       RunMonthlyReset (\<lambda>i. False) (\<lambda>k. at_time 2024 2 1),
       EnsureMonthlyReset (at_time 2024 3 1) 2]
 \<and> map current_balance (students (fold run_operation
      (take 2 [CreateRecognition (at_time 2024 1 15) 1 2 30 (Some ''thanks''),
       Redeem (at_time 2024 1 16) 2 50,
       Endorse (at_time 2024 1 16) 1 1,
       RunMonthlyReset (\<lambda>i. False) (\<lambda>k. at_time 2024 2 1),
       EnsureMonthlyReset (at_time 2024 3 1) 2]) two_students)) = [70, 80]
 \<and> map current_balance (students (fold run_operation
      (take 5 [CreateRecognition (at_time 2024 1 15) 1 2 30 (Some ''thanks''),
       Redeem (at_time 2024 1 16) 2 50,
       Endorse (at_time 2024 1 16) 1 1,
       RunMonthlyReset (\<lambda>i. False) (\<lambda>k. at_time 2024 2 1),
       EnsureMonthlyReset (at_time 2024 3 1) 2]) two_students)) = [150, 150]"
proof -
  let ?ops = "[CreateRecognition (at_time 2024 1 15) 1 2 30 (Some ''thanks''),
       Redeem (at_time 2024 1 16) 2 50,
       Endorse (at_time 2024 1 16) 1 1,
       RunMonthlyReset (\<lambda>i. False) (\<lambda>k. at_time 2024 2 1),
       EnsureMonthlyReset (at_time 2024 3 1) 2]"
  have h1: "balances_nonneg two_students"
    by (simp add: balances_nonneg_def example_defs)
  have h2: "list_all credit_amount_positive ?ops"
    by simp
  show ?thesis
    using h1 h2 balances_stay_nonneg [OF h1 h2]
    by (simp add: create_recognition_def redeem_def endorse_def
        run_monthly_reset_for_all_students_def ensure_monthly_reset_def needs_reset_def
        month_start_def datetime_less_def recognition_query_get_def Let_def example_defs
        save_student_def next_id_def)
qed

section \<open>leaderboard\<close>

lemma recognition_count_card:
  "recognition_count d s
     = card {r_id r |r. r \<in> set (recognitions d) \<and> r_receiver_id r = st_id s}"
proof -
  have "set (map r_id (filter (\<lambda>r. r_receiver_id r = st_id s) (recognitions d)))
          = {r_id r |r. r \<in> set (recognitions d) \<and> r_receiver_id r = st_id s}"
    by auto
  then show ?thesis
    by (simp only: recognition_count_def length_remdups_card_conv)
qed

lemma endorsement_count_card:
  "endorsement_count d s
     = card {e_id e |e. e \<in> set (endorsements d)
              \<and> (\<exists>r \<in> set (recognitions d).
                    r_receiver_id r = st_id s \<and> e_recognition_id e = r_id r)}"
proof -
  have "set (map e_id
       (filter (\<lambda>e. e_recognition_id e \<in>
                     set (map r_id (filter (\<lambda>r. r_receiver_id r = st_id s) (recognitions d))))
               (endorsements d)))
          = {e_id e |e. e \<in> set (endorsements d)
              \<and> (\<exists>r \<in> set (recognitions d).
                    r_receiver_id r = st_id s \<and> e_recognition_id e = r_id r)}"
    by auto
  then show ?thesis
    by (simp only: endorsement_count_def length_remdups_card_conv)
qed

lemma entry_of_row:
  "entry_of d s
     \<lparr>lb_student_id = st_id s, lb_name = st_name s,
      lb_credits_received_total = credits_received_total s,
      lb_recognition_count = recognition_count d s,
      lb_endorsement_count = endorsement_count d s\<rparr>"
  by (simp add: entry_of_def recognition_count_card endorsement_count_card)

lemma order_key_strict:
  "order_key a < order_key b \<longleftrightarrow>
     credits_received_total a > credits_received_total b
   \<or> (credits_received_total a = credits_received_total b \<and> st_id a < st_id b)"
  by (auto simp: order_key_def)

lemma ranked_strictly:
  assumes "distinct (map st_id xs)"
  shows "sorted_wrt (\<lambda>a b. order_key a < order_key b) (sort_key order_key xs)"
proof -
  have "inj_on order_key (set xs)"
    using assms by (auto simp: inj_on_def order_key_def distinct_map)
  then have "distinct (map order_key (sort_key order_key xs))"
    using assms by (simp add: distinct_map)
  moreover have "sorted (map order_key (sort_key order_key xs))"
    by simp
  ultimately have "sorted_wrt (<) (map order_key (sort_key order_key xs))"
    by (simp add: strict_sorted_iff)
  then show ?thesis by (simp add: sorted_wrt_map)
qed

lemma apply_limit_all:
  "int (length xs) \<le> limit \<Longrightarrow> apply_limit limit xs = xs"
  by (simp add: apply_limit_def)


lemma leaderboard_ids:
  "map lb_student_id (leaderboard limit d)
     = map st_id (apply_limit limit (sort_key order_key (students d)))"
  by (simp add: leaderboard_def comp_def)

text \<open>
  Claim C8. For a positive limit (and student ids distinct, as the primary key makes
  them), the leaderboard has at most \<open>limit\<close> entries, each ranking before all that
  follow it: larger received total first, equal totals by ascending student id. It is
  the first \<open>limit\<close> entries of the ranking of all students, in which every student has
  an entry, with counts 0 for a student who received no recognition. Every entry
  carries its student's stored total, the number of distinct recognitions received and
  the number of distinct endorsements on those recognitions. Replacing the endorsements
  table by any other leaves the order of the students unchanged.
\<close>

theorem leaderboard_spec:
  assumes "0 < limit" and "student_ids_distinct d"
  shows "length (leaderboard limit d) \<le> nat limit
    \<and> sorted_wrt ranks_before (leaderboard limit d)
    \<and> leaderboard limit d = take (nat limit) (leaderboard (int (length (students d))) d)
    \<and> length (leaderboard (int (length (students d))) d) = length (students d)
    \<and> (\<forall>s \<in> set (students d).
          \<exists>row \<in> set (leaderboard (int (length (students d))) d).
            entry_of d s row
          \<and> ((\<forall>r \<in> set (recognitions d). r_receiver_id r \<noteq> st_id s) \<longrightarrow>
               lb_recognition_count row = 0 \<and> lb_endorsement_count row = 0))
    \<and> (\<forall>row \<in> set (leaderboard limit d). \<exists>s \<in> set (students d). entry_of d s row)
    \<and> (\<forall>es. map lb_student_id (leaderboard limit (d\<lparr>endorsements := es\<rparr>))
              = map lb_student_id (leaderboard limit d))"
proof (intro conjI)
  let ?ranked = "sort_key order_key (students d)"
  let ?row = "\<lambda>s. \<lparr>lb_student_id = st_id s, lb_name = st_name s,
      lb_credits_received_total = credits_received_total s,
      lb_recognition_count = recognition_count d s,
      lb_endorsement_count = endorsement_count d s\<rparr>"
  have lb: "leaderboard limit d = map ?row (take (nat limit) ?ranked)"
    using assms(1) by (simp add: leaderboard_def apply_limit_def)
  have full: "leaderboard (int (length (students d))) d = map ?row ?ranked"
    by (simp add: leaderboard_def apply_limit_def)
  show "length (leaderboard limit d) \<le> nat limit"
    by (simp add: lb)
  have "sorted_wrt (\<lambda>a b. order_key a < order_key b) (take (nat limit) ?ranked)"
    using assms(2) by (simp add: student_ids_distinct_def ranked_strictly)
  then show "sorted_wrt ranks_before (leaderboard limit d)"
    by (simp add: lb sorted_wrt_map ranks_before_def order_key_strict)
  show "leaderboard limit d = take (nat limit) (leaderboard (int (length (students d))) d)"
    by (simp add: lb full take_map)
  show "length (leaderboard (int (length (students d))) d) = length (students d)"
    by (simp add: full)
  show "\<forall>s \<in> set (students d).
          \<exists>row \<in> set (leaderboard (int (length (students d))) d).
            entry_of d s row
          \<and> ((\<forall>r \<in> set (recognitions d). r_receiver_id r \<noteq> st_id s) \<longrightarrow>
               lb_recognition_count row = 0 \<and> lb_endorsement_count row = 0)"
  proof
    fix s
    assume s: "s \<in> set (students d)"
    have "?row s \<in> set (leaderboard (int (length (students d))) d)"
      using s by (simp add: full)
    moreover have "entry_of d s (?row s)"
      by (rule entry_of_row)
    moreover have "lb_recognition_count (?row s) = 0 \<and> lb_endorsement_count (?row s) = 0"
      if "\<forall>r \<in> set (recognitions d). r_receiver_id r \<noteq> st_id s"
      using that by (simp add: recognition_count_def endorsement_count_def filter_empty_conv)
    ultimately show "\<exists>row \<in> set (leaderboard (int (length (students d))) d).
            entry_of d s row
          \<and> ((\<forall>r \<in> set (recognitions d). r_receiver_id r \<noteq> st_id s) \<longrightarrow>
               lb_recognition_count row = 0 \<and> lb_endorsement_count row = 0)"
      by blast
  qed
  show "\<forall>row \<in> set (leaderboard limit d). \<exists>s \<in> set (students d). entry_of d s row"
  proof
    fix row
    assume "row \<in> set (leaderboard limit d)"
    then obtain s where "s \<in> set (take (nat limit) ?ranked)" and r: "row = ?row s"
      by (auto simp: lb)
    then have "s \<in> set (students d)"
      by (auto dest: in_set_takeD)
    then show "\<exists>s \<in> set (students d). entry_of d s row"
      using entry_of_row [of d s] r by blast
  qed
  show "\<forall>es. map lb_student_id (leaderboard limit (d\<lparr>endorsements := es\<rparr>))
              = map lb_student_id (leaderboard limit d)"
    by (simp add: leaderboard_ids)
qed

theorem leaderboard_spec_witness:
  "(0::int) < 2
 \<and> student_ids_distinct tied_students
 \<and> leaderboard 2 tied_students
    = [\<lparr>lb_student_id = 1, lb_name = ''A'', lb_credits_received_total = 50,
        lb_recognition_count = 1, lb_endorsement_count = 2\<rparr>,
       \<lparr>lb_student_id = 2, lb_name = ''B'', lb_credits_received_total = 50,
        lb_recognition_count = 1, lb_endorsement_count = 0\<rparr>]
 \<and> leaderboard 3 tied_students
    = [\<lparr>lb_student_id = 1, lb_name = ''A'', lb_credits_received_total = 50,
        lb_recognition_count = 1, lb_endorsement_count = 2\<rparr>,
       \<lparr>lb_student_id = 2, lb_name = ''B'', lb_credits_received_total = 50,
        lb_recognition_count = 1, lb_endorsement_count = 0\<rparr>,
       \<lparr>lb_student_id = 3, lb_name = ''C'', lb_credits_received_total = 0,
        lb_recognition_count = 0, lb_endorsement_count = 0\<rparr>]
 \<and> sorted_wrt ranks_before (leaderboard 2 tied_students)
 \<and> map lb_student_id (leaderboard 2 (tied_students\<lparr>endorsements := []\<rparr>)) = [1, 2]"
proof -
  have h1: "(0::int) < 2" by simp
  have h2: "student_ids_distinct tied_students"
    by (simp add: student_ids_distinct_def tied_students_def new_student_def)
  have two: "nat 2 = Suc (Suc 0)" and three: "nat 3 = Suc (Suc (Suc 0))"
    by simp_all
  show ?thesis
    using h2 leaderboard_spec [OF h1 h2]
    by (simp add: leaderboard_def apply_limit_def order_key_def recognition_count_def
        endorsement_count_def tied_students_def new_student_def at_time_def ranks_before_def
        two three)
qed

end
